theory Spec2Isabelle
  imports Main
begin

section \<open>The user service of \<open>node/index.js\<close>\<close>

text \<open>
  The back-end is one Express application with three routes. Every route is a single
  request/response cycle, and the only state is the relational store behind
  \<open>client.query\<close>. A handler is embedded as a function from the request and the store
  to the response and the store afterwards.
\<close>

subsection \<open>Request values\<close>

text \<open>
  A member of \<open>req.body\<close> after \<open>express.json()\<close> or \<open>express.urlencoded\<close>: absent
  (\<open>undefined\<close>), \<open>null\<close>, a boolean, a number or a string. Numbers are the
  integer-valued ones below \<open>10^21\<close> in magnitude, whose JavaScript rendering is the plain
  decimal numeral; fractional numbers, arrays and nested objects are not covered. A
  form-encoded body, which is what the React client sends, carries strings only.
\<close>

datatype jsval = JUndefined | JNull | JBool bool | JNumber int | JString string

text \<open>The parsed body: an object as its list of members, keys distinct.\<close>

type_synonym req_body = "(string \<times> jsval) list"

text \<open>\<open>req.body.k\<close>: a member that is not there reads as \<open>undefined\<close>.\<close>

definition body_field :: "req_body \<Rightarrow> string \<Rightarrow> jsval" where
  "body_field b k = (case map_of b k of None \<Rightarrow> JUndefined | Some v \<Rightarrow> v)"

definition digit_char :: "nat \<Rightarrow> char" where
  "digit_char d = char_of (48 + d)"

fun show_nat :: "nat \<Rightarrow> string" where
  "show_nat n = (if n < 10 then [digit_char n] else show_nat (n div 10) @ [digit_char (n mod 10)])"

declare show_nat.simps [simp del]

definition show_int :: "int \<Rightarrow> string" where
  "show_int i = (if i < 0 then CHR ''-'' # show_nat (nat (- i)) else show_nat (nat i))"

text \<open>What a template literal \<open>${v}\<close> puts into the text: JavaScript's \<open>ToString\<close>.\<close>

fun toString :: "jsval \<Rightarrow> string" where
  "toString JUndefined = ''undefined''"
| "toString JNull = ''null''"
| "toString (JBool b) = (if b then ''true'' else ''false'')"
| "toString (JNumber i) = show_int i"
| "toString (JString s) = s"

subsection \<open>The query texts\<close>

abbreviation quote :: char where
  "quote \<equiv> CHR 0x27"

abbreviation newline :: char where
  "newline \<equiv> CHR 0x0A"

text \<open>
  The template literal of the insert route:
  \<^verbatim>\<open>INSERT INTO users(name, email, age) VALUES ('${name}', '${email}', ${age});\<close>
\<close>

definition insert_query :: "jsval \<Rightarrow> jsval \<Rightarrow> jsval \<Rightarrow> string" where
  "insert_query name email age =
     ''INSERT INTO users(name, email, age) VALUES ('' @ [quote] @ toString name @ [quote] @
     '', '' @ [quote] @ toString email @ [quote] @ '', '' @ toString age @ '');''"

definition select_query :: string where
  "select_query = ''SELECT * FROM users''"

definition create_query :: string where
  "create_query =
     ''CREATE TABLE IF NOT EXISTS users '' @ [newline] @
     ''    (id serial PRIMARY KEY, name VARCHAR (255) UNIQUE NOT NULL, '' @ [newline] @
     ''    email VARCHAR (255) UNIQUE NOT NULL, age INT NOT NULL);''"

subsection \<open>The relational store\<close>

text \<open>
  Modelled from the spec: the relational store reached through \<open>client.query\<close> (the
  \<open>pg\<close> driver and the database server) is not among the repository's files. The
  model is the table the spec describes, \<open>users(id SERIAL PRIMARY KEY, name VARCHAR(255)
  UNIQUE NOT NULL, email VARCHAR(255) UNIQUE NOT NULL, age INT NOT NULL)\<close>, with the
  constraints the spec lists (uniqueness of name and of email, the non-null requirement,
  the integer type of age, an id the store assigns), and a reader of the query text. Where
  the spec is silent the model follows the documented behaviour of the PostgreSQL server
  the \<open>pg\<close> client talks to: keywords in either case, string literals in single quotes
  with a doubled quote for a quote inside, \<open>--\<close> starting a comment that runs to the end
  of the line, statements separated by semicolons and run in order as one unit that is
  undone as a whole when one of them fails, a 32-bit range for \<open>INT\<close>, a numeral with a
  fraction rounded on assignment to an integer column, a string longer than the column
  refused unless only spaces are cut off, and a query text holding the character of code
  zero, which ends the text on the wire, refused as a whole.

  An insert is settled in three steps. First the statement is analysed: a bare word is
  read as a column, which a \<open>VALUES\<close> list cannot name, and a boolean does not fit an
  integer column. Then the constants are converted: the length of the strings and the range
  of the number are checked. Only then is the row formed, which takes the next value of the
  id sequence, and the \<open>NOT NULL\<close> and \<open>UNIQUE\<close> constraints are checked. A sequence does
  not take part in undoing: when a unit fails, the rows are as before, and the values its
  statements took from the sequence stay taken. The primary key is not checked on its own:
  in the stores the service produces the sequence is ahead of every stored id.

  The statements covered are the three the service sends and \<open>DROP TABLE users\<close>; a
  value is a string literal, a decimal numeral with an optional minus sign, \<open>NULL\<close>,
  \<open>DEFAULT\<close>, \<open>TRUE\<close>, \<open>FALSE\<close> or another bare word. A string literal that never ends
  and an empty place in the list of values are a \<open>SyntaxError\<close>; any other text outside
  this fragment is answered with \<open>FeatureNotSupported\<close>. A real server accepts more, so
  nothing below concludes a failure from that answer.
\<close>

record row =
  row_id :: int
  row_name :: string
  row_email :: string
  row_age :: int

record store =
  connected :: bool
  users :: "row list option"
  users_id_seq :: int

datatype pg_error =
    ConnectionFailure
  | ProtocolViolation
  | SyntaxError
  | FeatureNotSupported
  | UndefinedTable
  | UndefinedColumn
  | DatatypeMismatch
  | StringDataRightTruncation
  | NumericValueOutOfRange
  | NotNullViolation
  | UniqueViolation

datatype token = Word string | Num nat string | StrLit string | Sym char

definition is_space :: "char \<Rightarrow> bool" where
  "is_space c = (of_char c \<in> {9, 10, 12, 13, 32 :: nat})"

definition is_digit :: "char \<Rightarrow> bool" where
  "is_digit c = (48 \<le> (of_char c :: nat) \<and> (of_char c :: nat) \<le> 57)"

definition is_alpha :: "char \<Rightarrow> bool" where
  "is_alpha c = ((65 \<le> (of_char c :: nat) \<and> (of_char c :: nat) \<le> 90) \<or>
                 (97 \<le> (of_char c :: nat) \<and> (of_char c :: nat) \<le> 122) \<or>
                 (of_char c :: nat) = 95)"

definition is_ident :: "char \<Rightarrow> bool" where
  "is_ident c = (is_alpha c \<or> is_digit c)"

definition lower :: "char \<Rightarrow> char" where
  "lower c = (if 65 \<le> (of_char c :: nat) \<and> (of_char c :: nat) \<le> 90
              then char_of ((of_char c :: nat) + 32) else c)"

definition digit_val :: "char \<Rightarrow> nat" where
  "digit_val c = of_char c - 48"

definition digits_val :: "string \<Rightarrow> nat" where
  "digits_val ds = foldl (\<lambda>a c. 10 * a + digit_val c) 0 ds"

text \<open>
  The inside of a string literal, read from just after the opening quote: the contents
  and what follows the closing quote. Two quotes in a row are one quote of the contents.
  \<open>None\<close> when the text ends before the literal does.
\<close>

fun lex_string :: "string \<Rightarrow> (string \<times> string) option" where
  "lex_string [] = None"
| "lex_string [c] = (if c = quote then Some ([], []) else None)"
| "lex_string (c # d # ds) =
     (if c = quote then
        (if d = quote then map_option (apfst ((#) quote)) (lex_string ds)
         else Some ([], d # ds))
      else map_option (apfst ((#) c)) (lex_string (d # ds)))"

definition emit :: "token \<Rightarrow> pg_error + token list \<Rightarrow> pg_error + token list" where
  "emit t r = (case r of Inl e \<Rightarrow> Inl e | Inr ts \<Rightarrow> Inr (t # ts))"

definition emits :: "token list \<Rightarrow> pg_error + token list \<Rightarrow> pg_error + token list" where
  "emits ts r = (case r of Inl e \<Rightarrow> Inl e | Inr us \<Rightarrow> Inr (ts @ us))"

lemma lex_string_shorter: "lex_string cs = Some (s, rest) \<Longrightarrow> length rest \<le> length cs"
proof (induction cs arbitrary: s rest rule: lex_string.induct)
  case 1
  then show ?case by simp
next
  case (2 c)
  then show ?case by (simp split: if_splits)
next
  case (3 c d ds)
  then show ?case by (fastforce split: if_splits)
qed

function lex :: "string \<Rightarrow> pg_error + token list" where
  "lex [] = Inr []"
| "lex (c # cs) =
     (if is_space c then lex cs
      else if c = CHR ''-'' \<and> take 1 cs = ''-'' then lex (dropWhile (\<lambda>d. d \<noteq> newline) cs)
      else if c = quote then
        (case lex_string cs of
           None \<Rightarrow> Inl SyntaxError
         | Some (s, rest) \<Rightarrow> emit (StrLit s) (lex rest))
      else if is_digit c then
        (case dropWhile is_digit cs of
           [] \<Rightarrow> Inr [Num (digits_val (c # takeWhile is_digit cs)) []]
         | d # r \<Rightarrow>
             if d = CHR ''.''
             then emit (Num (digits_val (c # takeWhile is_digit cs)) (takeWhile is_digit r))
                    (lex (dropWhile is_digit r))
             else emit (Num (digits_val (c # takeWhile is_digit cs)) []) (lex (d # r)))
      else if is_alpha c then
        emit (Word (map lower (c # takeWhile is_ident cs))) (lex (dropWhile is_ident cs))
      else emit (Sym c) (lex cs))"
  by pat_completeness auto
termination
proof (relation "measure length", goal_cases)
  case 1
  then show ?case by simp
next
  case (2 c cs)
  then show ?case by simp
next
  case (3 c cs)
  then show ?case by (simp add: le_imp_less_Suc length_dropWhile_le)
next
  case (4 c cs x2 s rest)
  then have "lex_string cs = Some (s, rest)" by simp
  then have "length rest \<le> length cs" by (rule lex_string_shorter)
  then show ?case by simp
next
  case (5 c cs d r)
  have "length (dropWhile is_digit r) \<le> length r"
    by (rule length_dropWhile_le)
  moreover have "length (dropWhile is_digit cs) \<le> length cs"
    by (rule length_dropWhile_le)
  ultimately show ?case using 5 by simp
next
  case (6 c cs d r)
  have "length (dropWhile is_digit cs) \<le> length cs"
    by (rule length_dropWhile_le)
  then show ?case using 6 by simp
next
  case (7 c cs)
  then show ?case by (simp add: le_imp_less_Suc length_dropWhile_le)
next
  case (8 c cs)
  then show ?case by simp
qed

text \<open>Statements are separated by semicolons; an empty statement is skipped.\<close>

fun split_stmts :: "token list \<Rightarrow> token list list" where
  "split_stmts [] = [[]]"
| "split_stmts (t # ts) =
     (if t = Sym CHR '';'' then [] # split_stmts ts
      else (case split_stmts ts of [] \<Rightarrow> [[t]] | g # gs \<Rightarrow> (t # g) # gs))"

datatype sqlval =
  VStr string | VNum bool nat string | VBool bool | VNull | VDefault | VIdent string

datatype stmt = CreateTable | SelectAll | Insert sqlval sqlval sqlval | DropTable

text \<open>
  One value of the \<open>VALUES\<close> list and the tokens after it. A closing parenthesis, a
  comma or the end of the statement where a value must stand is a syntax error.
\<close>

fun parse_value :: "token list \<Rightarrow> pg_error + (sqlval \<times> token list)" where
  "parse_value [] = Inl SyntaxError"
| "parse_value (StrLit s # ts) = Inr (VStr s, ts)"
| "parse_value (Num n f # ts) = Inr (VNum False n f, ts)"
| "parse_value (Word w # ts) =
     Inr (if w = ''null'' then VNull
          else if w = ''default'' then VDefault
          else if w = ''true'' then VBool True
          else if w = ''false'' then VBool False
          else VIdent w, ts)"
| "parse_value (Sym c # ts) =
     (if c = CHR '')'' \<or> c = CHR '','' then Inl SyntaxError
      else if c = CHR ''-'' then
        (case ts of
           Num n f # ts' \<Rightarrow> Inr (VNum True n f, ts')
         | _ \<Rightarrow> Inl FeatureNotSupported)
      else Inl FeatureNotSupported)"

fun expect :: "token \<Rightarrow> token list \<Rightarrow> token list option" where
  "expect t [] = None"
| "expect t (u # us) = (if t = u then Some us else None)"

definition parse_values :: "token list \<Rightarrow> pg_error + stmt" where
  "parse_values ts =
     (case parse_value ts of Inl e \<Rightarrow> Inl e | Inr (v1, ts1) \<Rightarrow>
      case expect (Sym CHR '','') ts1 of None \<Rightarrow> Inl FeatureNotSupported | Some ts2 \<Rightarrow>
      case parse_value ts2 of Inl e \<Rightarrow> Inl e | Inr (v2, ts3) \<Rightarrow>
      case expect (Sym CHR '','') ts3 of None \<Rightarrow> Inl FeatureNotSupported | Some ts4 \<Rightarrow>
      case parse_value ts4 of Inl e \<Rightarrow> Inl e | Inr (v3, ts5) \<Rightarrow>
      if ts5 = [Sym CHR '')''] then Inr (Insert v1 v2 v3) else Inl FeatureNotSupported)"

definition insert_head :: "token list" where
  "insert_head =
     [Word ''insert'', Word ''into'', Word ''users'', Sym CHR ''('', Word ''name'',
      Sym CHR '','', Word ''email'', Sym CHR '','', Word ''age'', Sym CHR '')'',
      Word ''values'', Sym CHR ''('']"

definition create_tokens :: "token list" where
  "create_tokens =
     [Word ''create'', Word ''table'', Word ''if'', Word ''not'', Word ''exists'',
      Word ''users'', Sym CHR ''('',
      Word ''id'', Word ''serial'', Word ''primary'', Word ''key'', Sym CHR '','',
      Word ''name'', Word ''varchar'', Sym CHR ''('', Num 255 [], Sym CHR '')'',
      Word ''unique'', Word ''not'', Word ''null'', Sym CHR '','',
      Word ''email'', Word ''varchar'', Sym CHR ''('', Num 255 [], Sym CHR '')'',
      Word ''unique'', Word ''not'', Word ''null'', Sym CHR '','',
      Word ''age'', Word ''int'', Word ''not'', Word ''null'', Sym CHR '')'']"

definition parse_stmt :: "token list \<Rightarrow> pg_error + stmt" where
  "parse_stmt ts =
     (if ts = [Word ''select'', Sym CHR ''*'', Word ''from'', Word ''users''] then Inr SelectAll
      else if ts = [Word ''drop'', Word ''table'', Word ''users''] then Inr DropTable
      else if ts = create_tokens then Inr CreateTable
      else if take (length insert_head) ts = insert_head
        then parse_values (drop (length insert_head) ts)
      else Inl FeatureNotSupported)"

text \<open>The whole text is parsed before any statement runs.\<close>

fun parse_all :: "token list list \<Rightarrow> pg_error + stmt list" where
  "parse_all [] = Inr []"
| "parse_all (g # gs) =
     (case parse_stmt g of
        Inl e \<Rightarrow> Inl e
      | Inr st \<Rightarrow> (case parse_all gs of Inl e \<Rightarrow> Inl e | Inr sts \<Rightarrow> Inr (st # sts)))"

text \<open>Analysis: what kind of value may stand for a text column and for an integer column.\<close>

definition check_text :: "sqlval \<Rightarrow> pg_error option" where
  "check_text v =
     (case v of
        VIdent w \<Rightarrow> Some UndefinedColumn
      | VNum neg n f \<Rightarrow> Some FeatureNotSupported
      | VBool b \<Rightarrow> Some FeatureNotSupported
      | VStr s \<Rightarrow> None
      | VNull \<Rightarrow> None
      | VDefault \<Rightarrow> None)"

definition check_int :: "sqlval \<Rightarrow> pg_error option" where
  "check_int v =
     (case v of
        VIdent w \<Rightarrow> Some UndefinedColumn
      | VBool b \<Rightarrow> Some DatatypeMismatch
      | VStr s \<Rightarrow> Some FeatureNotSupported
      | VNum neg n f \<Rightarrow> None
      | VNull \<Rightarrow> None
      | VDefault \<Rightarrow> None)"

text \<open>
  Conversion to \<open>VARCHAR(255)\<close>: a longer string is refused unless only spaces are cut
  off. \<open>None\<close> is the null value, which is also the default of each of the three columns.
\<close>

definition to_varchar255 :: "sqlval \<Rightarrow> pg_error + string option" where
  "to_varchar255 v =
     (case v of
        VIdent w \<Rightarrow> Inl UndefinedColumn
      | VNum neg n f \<Rightarrow> Inl FeatureNotSupported
      | VBool b \<Rightarrow> Inl FeatureNotSupported
      | VNull \<Rightarrow> Inr None
      | VDefault \<Rightarrow> Inr None
      | VStr s \<Rightarrow>
          if length s \<le> 255 then Inr (Some s)
          else if list_all (\<lambda>c. c = CHR '' '') (drop 255 s) then Inr (Some (take 255 s))
          else Inl StringDataRightTruncation)"

text \<open>
  Conversion to \<open>INT\<close>, a 32-bit signed integer. A numeral with a fraction is rounded
  to the nearest integer, a half away from zero.
\<close>

definition to_int4 :: "sqlval \<Rightarrow> pg_error + int option" where
  "to_int4 v =
     (case v of
        VIdent w \<Rightarrow> Inl UndefinedColumn
      | VBool b \<Rightarrow> Inl DatatypeMismatch
      | VStr s \<Rightarrow> Inl FeatureNotSupported
      | VNull \<Rightarrow> Inr None
      | VDefault \<Rightarrow> Inr None
      | VNum neg n f \<Rightarrow>
          (let m = (if f \<noteq> [] \<and> 5 \<le> digit_val (hd f) then n + 1 else n);
               i = (if neg then - int m else int m)
           in if - 2147483648 \<le> i \<and> i \<le> 2147483647 then Inr (Some i)
              else Inl NumericValueOutOfRange))"

text \<open>
  The insert: its outcome and the store at that point. A failure of the first two steps
  leaves the store as it was; once the row is formed the sequence has moved on, whether the
  constraints then hold or not.
\<close>

definition exec_insert ::
  "sqlval \<Rightarrow> sqlval \<Rightarrow> sqlval \<Rightarrow> store \<Rightarrow> (pg_error + row list) \<times> store" where
  "exec_insert v1 v2 v3 s =
     (case users s of
        None \<Rightarrow> (Inl UndefinedTable, s)
      | Some rows \<Rightarrow>
          (case check_text v1 of Some e \<Rightarrow> (Inl e, s) | None \<Rightarrow>
           case check_text v2 of Some e \<Rightarrow> (Inl e, s) | None \<Rightarrow>
           case check_int v3 of Some e \<Rightarrow> (Inl e, s) | None \<Rightarrow>
           case to_varchar255 v1 of Inl e \<Rightarrow> (Inl e, s) | Inr n \<Rightarrow>
           case to_varchar255 v2 of Inl e \<Rightarrow> (Inl e, s) | Inr m \<Rightarrow>
           case to_int4 v3 of Inl e \<Rightarrow> (Inl e, s) | Inr a \<Rightarrow>
           (let taken = s\<lparr>users_id_seq := users_id_seq s + 1\<rparr> in
            case (n, m, a) of
              (Some n', Some m', Some a') \<Rightarrow>
                if n' \<in> set (map row_name rows) \<or> m' \<in> set (map row_email rows)
                then (Inl UniqueViolation, taken)
                else (Inr [], taken\<lparr>users := Some (rows @
                        [\<lparr>row_id = users_id_seq s, row_name = n', row_email = m',
                          row_age = a'\<rparr>])\<rparr>)
            | _ \<Rightarrow> (Inl NotNullViolation, taken))))"

text \<open>One statement: the rows it returns, or its error, and the store at that point.\<close>

fun exec_stmt :: "stmt \<Rightarrow> store \<Rightarrow> (pg_error + row list) \<times> store" where
  "exec_stmt CreateTable s =
     (case users s of
        None \<Rightarrow> (Inr [], s\<lparr>users := Some [], users_id_seq := 1\<rparr>)
      | Some rows \<Rightarrow> (Inr [], s))"
| "exec_stmt SelectAll s =
     (case users s of None \<Rightarrow> (Inl UndefinedTable, s) | Some rows \<Rightarrow> (Inr rows, s))"
| "exec_stmt DropTable s =
     (case users s of
        None \<Rightarrow> (Inl UndefinedTable, s)
      | Some rows \<Rightarrow> (Inr [], s\<lparr>users := None\<rparr>))"
| "exec_stmt (Insert v1 v2 v3) s = exec_insert v1 v2 v3 s"

text \<open>
  The statements of one text in order. On a failure the result is the error and the value
  the sequence of the table as it stood at the start has reached: that of the store while
  this table is there (\<open>kept = None\<close>), and the value it had when it was dropped
  afterwards.
\<close>

fun run ::
  "stmt list \<Rightarrow> row list \<Rightarrow> store \<Rightarrow> int option \<Rightarrow> (pg_error \<times> int) + (row list \<times> store)" where
  "run [] acc s kept = Inr (acc, s)"
| "run (st # sts) acc s kept =
     (case exec_stmt st s of
        (Inl e, s') \<Rightarrow> Inl (e, case kept of None \<Rightarrow> users_id_seq s' | Some k \<Rightarrow> k)
      | (Inr r, s') \<Rightarrow>
          run sts r s'
            (case kept of
               None \<Rightarrow> if st = DropTable then Some (users_id_seq s') else None
             | Some k \<Rightarrow> Some k))"

text \<open>
  \<open>client.query(text)\<close>: the promise rejects with an error (\<open>Inl\<close>), or resolves with
  the rows of the last statement and the store afterwards. After a rejection the table is
  as it was and its sequence keeps the values that were taken.
\<close>

definition query :: "string \<Rightarrow> store \<Rightarrow> (pg_error + row list) \<times> store" where
  "query text s =
     (if \<not> connected s then (Inl ConnectionFailure, s)
      else if CHR 0x00 \<in> set text then (Inl ProtocolViolation, s)
      else case lex text of
        Inl e \<Rightarrow> (Inl e, s)
      | Inr ts \<Rightarrow>
          (case parse_all (filter (\<lambda>g. g \<noteq> []) (split_stmts ts)) of
             Inl e \<Rightarrow> (Inl e, s)
           | Inr sts \<Rightarrow>
               (case run sts [] s None of
                  Inl (e, k) \<Rightarrow> (Inl e, if users s = None then s else s\<lparr>users_id_seq := k\<rparr>)
                | Inr (rows, s') \<Rightarrow> (Inr rows, s'))))"

subsection \<open>The routes\<close>

datatype resp_body = Text string | Rows "row list" | Echo req_body | ErrorBody pg_error

record response =
  status :: nat
  body :: resp_body

text \<open>\<open>createTable\<close>: what its one statement does to the store.\<close>

definition createTable :: "store \<Rightarrow> store" where
  "createTable s = snd (query create_query s)"

text \<open>
  Loading the module: \<open>client.connect()\<close> (line 15) and \<open>createTable()\<close> (line 23)
  are called and neither promise is given a handler for its rejection. When the store
  cannot be reached, or the statement fails, the promise rejects, and an unhandled
  rejection ends the process under the Node 18 the repository names (its README: without
  the database running \<open>it will crash\<close>). \<open>None\<close> is that end; otherwise the result is
  the store the routes then work on.
\<close>

definition start :: "store \<Rightarrow> store option" where
  "start s =
     (if \<not> connected s then None
      else case query create_query s of
             (Inl error, s') \<Rightarrow> None
           | (Inr rows, s') \<Rightarrow> Some s')"

text \<open>A route called in a process that was loaded against the store \<open>s\<close>.\<close>

definition after_start :: "(store \<Rightarrow> response \<times> store) \<Rightarrow> store \<Rightarrow> (response \<times> store) option" where
  "after_start route s = (case start s of None \<Rightarrow> None | Some s' \<Rightarrow> Some (route s'))"


text \<open>\<open>app.get('/api/all', ...)\<close>\<close>

definition get_all :: "store \<Rightarrow> response \<times> store" where
  "get_all s =
     (case query select_query s of
        (Inr rows, s') \<Rightarrow> (\<lparr>status = 200, body = Rows rows\<rparr>, s')
      | (Inl error, s') \<Rightarrow> (\<lparr>status = 500, body = ErrorBody error\<rparr>, s'))"

text \<open>
  \<open>app.post('/api/form', ...)\<close>. A resolved \<open>client.query\<close> yields a result object,
  which is truthy, so \<open>if(response)\<close> always takes its branch; the same holds in the
  list route.
\<close>

definition post_form :: "req_body \<Rightarrow> store \<Rightarrow> response \<times> store" where
  "post_form b s =
     (let name = body_field b ''name'';
          email = body_field b ''email'';
          age = body_field b ''age''
      in case query (insert_query name email age) s of
           (Inr rows, s') \<Rightarrow> (\<lparr>status = 200, body = Echo b\<rparr>, s')
         | (Inl error, s') \<Rightarrow> (\<lparr>status = 500, body = ErrorBody error\<rparr>, s'))"

text \<open>Inputs used to run the routes on concrete requests.\<close>

definition empty_store :: store where
  "empty_store = \<lparr>connected = True, users = Some [], users_id_seq = 1\<rparr>"

definition alice :: req_body where
  "alice = [(''name'', JString ''alice''), (''email'', JString ''alice@example.com''),
            (''age'', JNumber 30)]"


definition alice_form :: req_body where
  "alice_form = [(''name'', JString ''alice''), (''age'', JString ''30''),
                 (''email'', JString ''alice@example.com'')]"






definition no_age :: req_body where
  "no_age = [(''name'', JString ''alice''), (''email'', JString ''alice@example.com'')]"

definition no_name :: req_body where
  "no_name = [(''email'', JString ''alice@example.com''), (''age'', JNumber 30)]"

definition drop_table_name :: req_body where
  "drop_table_name =
     [(''name'', JString (''x'' @ [quote] @ '', '' @ [quote, quote] @ '', 0); DROP TABLE users; --'')),
      (''email'', JString ''mallory@example.com''), (''age'', JNumber 1)]"

definition obrien :: req_body where
  "obrien =
     [(''name'', JString (''O'' @ [quote] @ ''Brien'')),
      (''email'', JString ''obrien@example.com''), (''age'', JNumber 30)]"

definition same_email :: req_body where
  "same_email =
     [(''name'', JString (''bob'' @ [quote] @ '', '' @ [quote] @ ''bob@example.com'' @ [quote] @ '', 31); --'')),
      (''email'', JString ''alice@example.com''), (''age'', JNumber 31)]"

definition alice_store :: store where
  "alice_store =
     \<lparr>connected = True,
      users = Some [\<lparr>row_id = 1, row_name = ''alice'', row_email = ''alice@example.com'',
                     row_age = 30\<rparr>],
      users_id_seq = 2\<rparr>"

section \<open>Reading the query texts\<close>

lemma char_eq_char_of: "c = char_of (n :: nat) \<longleftrightarrow> take_bit 8 n = of_char c"
  using char_of_eq_iff [of n c] by auto

lemmas lex_eval = is_space_def is_digit_def is_alpha_def is_ident_def lower_def digit_val_def
  digits_val_def emit_def char_of_eq_iff char_eq_char_of

lemma lex_string_plain:
  "quote \<notin> set s \<Longrightarrow> d \<noteq> quote \<Longrightarrow> lex_string (s @ quote # d # r) = Some (s, d # r)"
proof (induction s)
  case Nil
  then show ?case by simp
next
  case (Cons c s)
  then have IH: "lex_string (s @ quote # d # r) = Some (s, d # r)" by simp
  obtain x xs where eq: "s @ quote # d # r = x # xs" by (cases s) auto
  from Cons.prems have "c \<noteq> quote" by auto
  then have "lex_string (c # x # xs) = map_option (apfst ((#) c)) (lex_string (x # xs))"
    by simp
  with IH eq show ?case by simp
qed

lemma lex_insert_prefix:
  "lex (''INSERT INTO users(name, email, age) VALUES ('' @ r) = emits insert_head (lex r)"
  by (simp add: lex_eval insert_head_def emits_def split: sum.splits)

lemma lex_literal_comma:
  assumes "quote \<notin> set s"
  shows "lex (quote # s @ quote # CHR '','' # CHR '' '' # r) = emits [StrLit s, Sym CHR '',''] (lex r)"
proof -
  have "lex_string (s @ quote # CHR '','' # CHR '' '' # r) = Some (s, CHR '','' # CHR '' '' # r)"
    using assms by (intro lex_string_plain) auto
  then show ?thesis
    by (simp add: lex_eval emits_def split: sum.splits)
qed

lemma emits_emits: "emits ts (emits us r) = emits (ts @ us) r"
  by (simp add: emits_def split: sum.splits)

lemma lex_insert_query:
  assumes "quote \<notin> set (toString name)" "quote \<notin> set (toString email)"
  shows "lex (insert_query name email age) =
         emits (insert_head @ [StrLit (toString name), Sym CHR '','', StrLit (toString email), Sym CHR '',''])
           (lex (toString age @ '');''))"
proof -
  let ?r2 = "toString age @ '');''"
  let ?r1 = "quote # toString email @ quote # CHR '','' # CHR '' '' # ?r2"
  let ?r0 = "quote # toString name @ quote # CHR '','' # CHR '' '' # ?r1"
  have "insert_query name email age = ''INSERT INTO users(name, email, age) VALUES ('' @ ?r0"
    by (simp add: insert_query_def)
  then have "lex (insert_query name email age) = emits insert_head (lex ?r0)"
    by (simp only: lex_insert_prefix)
  also have "lex ?r0 = emits [StrLit (toString name), Sym CHR '',''] (lex ?r1)"
    using assms(1) by (rule lex_literal_comma)
  also have "lex ?r1 = emits [StrLit (toString email), Sym CHR '',''] (lex ?r2)"
    using assms(2) by (rule lex_literal_comma)
  finally show ?thesis
    by (simp add: emits_emits)
qed


lemma is_alpha_other:
  "is_alpha c \<Longrightarrow> \<not> is_space c \<and> c \<noteq> CHR ''-'' \<and> c \<noteq> quote \<and> \<not> is_digit c"
  by (auto simp: is_digit_def is_space_def is_alpha_def)


lemma lex_word:
  assumes "is_alpha c" "list_all is_ident cs"
  shows "lex ((c # cs) @ '');'') = Inr [Word (map lower (c # cs)), Sym CHR '')'', Sym CHR '';'']"
proof -
  have not: "\<not> is_ident CHR '')''" by (simp add: is_ident_def is_alpha_def is_digit_def)
  from assms(2) have tw: "takeWhile is_ident (cs @ '');'') = cs"
    by (induction cs) (auto simp: not)
  from assms(2) have dw: "dropWhile is_ident (cs @ '');'') = '');''"
    by (induction cs) (auto simp: not)
  have tail: "lex '');'' = Inr [Sym CHR '')'', Sym CHR '';'']"
    by (simp add: lex_eval)
  show ?thesis
    using is_alpha_other [OF assms(1)] assms(1) tail by (simp add: tw dw emit_def)
qed







lemmas run_eval = post_form_def get_all_def query_def insert_query_def select_query_def
  body_field_def show_int_def show_nat.simps digit_char_def parse_stmt_def parse_values_def
  insert_head_def create_tokens_def check_text_def check_int_def to_varchar255_def
  to_int4_def exec_insert_def start_def after_start_def createTable_def create_query_def
  Let_def

lemma lex_select_query:
  "lex select_query = Inr [Word ''select'', Sym CHR ''*'', Word ''from'', Word ''users'']"
  by (simp add: select_query_def lex_eval)

lemma query_select:
  "query select_query s =
     (if \<not> connected s then (Inl ConnectionFailure, s)
      else case users s of None \<Rightarrow> (Inl UndefinedTable, s) | Some rows \<Rightarrow> (Inr rows, s))"
proof -
  have "CHR 0x00 \<notin> set select_query"
    by (simp add: select_query_def)
  then show ?thesis
    by (simp add: query_def lex_select_query parse_stmt_def split: option.splits)
qed




lemma split_stmts_one:
  "Sym CHR '';'' \<notin> set ts \<Longrightarrow> split_stmts (ts @ [Sym CHR '';'']) = [ts, []]"
  by (induction ts) auto




lemma query_insert_tokens:
  assumes n: "quote \<notin> set (toString name)" and e: "quote \<notin> set (toString email)"
    and a: "lex (toString age @ '');'') = Inr (ats @ [Sym CHR '')'', Sym CHR '';''])"
    and semi: "Sym CHR '';'' \<notin> set ats"
  shows "query (insert_query name email age) s =
     (if \<not> connected s then (Inl ConnectionFailure, s)
      else if CHR 0x00 \<in> set (insert_query name email age) then (Inl ProtocolViolation, s)
      else case parse_values ([StrLit (toString name), Sym CHR '','', StrLit (toString email),
                  Sym CHR '',''] @ ats @ [Sym CHR '')'']) of
             Inl err \<Rightarrow> (Inl err, s)
           | Inr st \<Rightarrow>
               (case exec_stmt st s of
                  (Inl err, s') \<Rightarrow>
                    (Inl err, if users s = None then s else s\<lparr>users_id_seq := users_id_seq s'\<rparr>)
                | (Inr rows, s') \<Rightarrow> (Inr rows, s')))"
proof -
  let ?vals = "[StrLit (toString name), Sym CHR '','', StrLit (toString email), Sym CHR '',''] @ ats @ [Sym CHR '')'']"
  let ?ts = "insert_head @ ?vals"
  have lx: "lex (insert_query name email age) = Inr (?ts @ [Sym CHR '';''])"
    by (simp add: lex_insert_query [OF n e] a emits_def)
  have "Sym CHR '';'' \<notin> set ?ts"
    using semi by (simp add: insert_head_def)
  then have sp: "split_stmts (?ts @ [Sym CHR '';'']) = [?ts, []]"
    by (rule split_stmts_one)
  have ne: "?ts \<noteq> []"
    by (simp add: insert_head_def)
  have ps: "parse_stmt ?ts = parse_values ?vals"
    unfolding parse_stmt_def by (simp add: insert_head_def create_tokens_def)
  have pa: "parse_all (filter (\<lambda>g. g \<noteq> []) (split_stmts (?ts @ [Sym CHR '';'']))) =
            (case parse_values ?vals of Inl err \<Rightarrow> Inl err | Inr st \<Rightarrow> Inr [st])"
    unfolding sp using ne ps by (simp split: sum.splits)
  show ?thesis
  proof (cases "parse_values ?vals")
    case (Inl err)
    then show ?thesis
      unfolding query_def lx sum.case pa by simp
  next
    case (Inr st)
    obtain r s' where ex: "exec_stmt st s = (r, s')"
      by (cases "exec_stmt st s")
    show ?thesis
      unfolding query_def lx sum.case pa Inr using ex by (cases r) simp_all
  qed
qed

lemma query_insert_plain:
  assumes n: "quote \<notin> set (toString name)" and e: "quote \<notin> set (toString email)"
    and a: "lex (toString age @ '');'') = Inr (ats @ [Sym CHR '')'', Sym CHR '';''])"
    and v: "parse_value (ats @ [Sym CHR '')'']) = Inr (v, [Sym CHR '')''])"
    and semi: "Sym CHR '';'' \<notin> set ats"
  shows "query (insert_query name email age) s =
     (if \<not> connected s then (Inl ConnectionFailure, s)
      else if CHR 0x00 \<in> set (insert_query name email age) then (Inl ProtocolViolation, s)
      else case exec_insert (VStr (toString name)) (VStr (toString email)) v s of
             (Inl err, s') \<Rightarrow>
               (Inl err, if users s = None then s else s\<lparr>users_id_seq := users_id_seq s'\<rparr>)
           | (Inr rows, s') \<Rightarrow> (Inr rows, s'))"
proof -
  have "parse_values ([StrLit (toString name), Sym CHR '','', StrLit (toString email),
          Sym CHR '',''] @ ats @ [Sym CHR '')'']) =
        Inr (Insert (VStr (toString name)) (VStr (toString email)) v)"
    using v by (simp add: parse_values_def)
  then show ?thesis
    by (simp add: query_insert_tokens [OF n e a semi])
qed










lemma exec_insert_ident:
  "\<exists>err. err \<noteq> FeatureNotSupported \<and>
     exec_insert (VStr n) (VStr e) (VIdent w) s = (Inl err, s)"
  by (auto simp: exec_insert_def check_text_def check_int_def split: option.splits)




lemma post_form_column_age:
  assumes n: "quote \<notin> set (toString (body_field b ''name''))"
    and e: "quote \<notin> set (toString (body_field b ''email''))"
    and a: "toString (body_field b ''age'') = c # cs"
    and c: "is_alpha c" and cs: "list_all is_ident cs"
    and v: "parse_value ([Word (map lower (c # cs))] @ [Sym CHR '')'']) =
            Inr (VIdent (map lower (c # cs)), [Sym CHR '')''])"
  shows "\<exists>err. err \<noteq> FeatureNotSupported \<and>
           post_form b s = (\<lparr>status = 500, body = ErrorBody err\<rparr>, s)"
proof -
  let ?q = "insert_query (body_field b ''name'') (body_field b ''email'') (body_field b ''age'')"
  have lx: "lex (toString (body_field b ''age'') @ '');'') =
            Inr ([Word (map lower (c # cs))] @ [Sym CHR '')'', Sym CHR '';''])"
    using lex_word [OF c cs] a by simp
  have semi: "Sym CHR '';'' \<notin> set [Word (map lower (c # cs))]"
    by simp
  note q = query_insert_plain [OF n e lx v semi, of s]
  from exec_insert_ident obtain err where
    err: "err \<noteq> FeatureNotSupported"
      "exec_insert (VStr (toString (body_field b ''name'')))
         (VStr (toString (body_field b ''email''))) (VIdent (map lower (c # cs))) s = (Inl err, s)"
    by blast
  have "\<exists>err. err \<noteq> FeatureNotSupported \<and> query ?q s = (Inl err, s)"
  proof (cases "connected s \<and> CHR 0x00 \<notin> set ?q")
    case False
    with q show ?thesis by auto
  next
    case True
    with q err show ?thesis by auto
  qed
  then show ?thesis
    by (auto simp: post_form_def Let_def)
qed

section \<open>The routes' contracts\<close>




text \<open>
  C6: when the insert of a create-user request succeeds, that is, the promise of
  \<open>client.query\<close> resolves, the request is answered with status 200 and with the request
  body itself: the submitted members, name, email and age among them, and nothing the store
  produced, so no generated id. The store is the one the insert left.
\<close>

theorem post_form_follows_insert:
  assumes "query (insert_query (body_field b ''name'') (body_field b ''email'')
             (body_field b ''age'')) s = (Inr rows, s')"
  shows "post_form b s = (\<lparr>status = 200, body = Echo b\<rparr>, s')"
  using assms by (simp add: post_form_def Let_def)

theorem post_form_follows_insert_witness:
  "query (insert_query (body_field alice ''name'') (body_field alice ''email'')
     (body_field alice ''age'')) empty_store = (Inr [], alice_store) \<and>
   post_form alice empty_store = (\<lparr>status = 200, body = Echo alice\<rparr>, alice_store)"
proof -
  have q: "query (insert_query (body_field alice ''name'') (body_field alice ''email'')
     (body_field alice ''age'')) empty_store = (Inr [], alice_store)"
    by (simp add: alice_def empty_store_def alice_store_def lex_eval run_eval)
  from post_form_follows_insert [OF q] q show ?thesis
    by simp
qed

text \<open>
  C7: on a reachable store whose users table is empty, list-users answers status 200
  with the empty sequence of rows, not an error, and leaves the store as it was.
\<close>

theorem get_all_empty:
  "connected s \<Longrightarrow> users s = Some [] \<Longrightarrow> get_all s = (\<lparr>status = 200, body = Rows []\<rparr>, s)"
  by (simp add: get_all_def query_select)

theorem get_all_empty_witness:
  "connected empty_store \<and> users empty_store = Some [] \<and>
   get_all empty_store = (\<lparr>status = 200, body = Rows []\<rparr>, empty_store)"
proof -
  have c: "connected empty_store" and u: "users empty_store = Some []"
    by (simp_all add: empty_store_def)
  from get_all_empty [OF c u] c u show ?thesis
    by simp
qed










text \<open>
  C5, as amended: when the age member is absent from the request body, and the texts of
  name and email hold no single quote, the word \<open>undefined\<close> is put into the query in
  the place of the age, the request is answered with status 500 and the store is left as it
  was. An absent name or email is put into the query as the string literal
  \<open>'undefined'\<close>, which the store accepts.
\<close>

theorem absent_age_fails:
  assumes "map_of b ''age'' = None"
    and "quote \<notin> set (toString (body_field b ''name''))"
    and "quote \<notin> set (toString (body_field b ''email''))"
  shows "insert_query (body_field b ''name'') (body_field b ''email'') (body_field b ''age'') =
           ''INSERT INTO users(name, email, age) VALUES ('' @ [quote] @
           toString (body_field b ''name'') @ [quote] @ '', '' @ [quote] @
           toString (body_field b ''email'') @ [quote] @ '', undefined);'' \<and>
         status (fst (post_form b s)) = 500 \<and>
         body (fst (post_form b s)) \<noteq> ErrorBody FeatureNotSupported \<and>
         snd (post_form b s) = s"
proof -
  have a: "toString (body_field b ''age'') = CHR ''u'' # ''ndefined''"
    using assms(1) by (simp add: body_field_def)
  have "is_alpha CHR ''u''" "list_all is_ident ''ndefined''"
    "parse_value ([Word (map lower (CHR ''u'' # ''ndefined''))] @ [Sym CHR '')'']) =
       Inr (VIdent (map lower (CHR ''u'' # ''ndefined'')), [Sym CHR '')''])"
    by (simp_all add: lex_eval)
  from post_form_column_age [OF assms(2,3) a this, of s] a show ?thesis
    by (auto simp: insert_query_def)
qed

theorem absent_age_fails_witness:
  "map_of no_age ''age'' = None \<and>
   post_form no_age empty_store =
     (\<lparr>status = 500, body = ErrorBody UndefinedColumn\<rparr>, empty_store)"
proof -
  have a: "map_of no_age ''age'' = None"
    by (simp add: no_age_def)
  have n: "quote \<notin> set (toString (body_field no_age ''name''))"
    and e: "quote \<notin> set (toString (body_field no_age ''email''))"
    by (simp_all add: no_age_def body_field_def)
  have "post_form no_age empty_store =
     (\<lparr>status = 500, body = ErrorBody UndefinedColumn\<rparr>, empty_store)"
    by (simp add: no_age_def empty_store_def lex_eval run_eval)
  with absent_age_fails [OF a n e, of empty_store] a show ?thesis
    by simp
qed

theorem absent_age_fails_counterexample:
  "map_of no_name ''name'' = None \<and>
   post_form no_name empty_store =
     (\<lparr>status = 200, body = Echo no_name\<rparr>,
      \<lparr>connected = True,
       users = Some [\<lparr>row_id = 1, row_name = ''undefined'', row_email = ''alice@example.com'',
                      row_age = 30\<rparr>],
       users_id_seq = 2\<rparr>)"
  by (simp add: no_name_def empty_store_def lex_eval run_eval)

text \<open>
  C1: a name or email holding a single quote is meant to be stored verbatim as data. The
  route does not do so: the name \<open>x', '', 0); DROP TABLE users; --\<close> closes the string
  literal of the query text, the store inserts the row \<open>('x', '', 0)\<close>, drops the users
  table, the request is answered with status 200 and list-users fails afterwards; the name
  \<open>O'Brien\<close> makes the query text ill-formed and the request is answered with status
  500.
\<close>

theorem injected_name_runs_as_sql:
  "insert_query (body_field drop_table_name ''name'') (body_field drop_table_name ''email'')
     (body_field drop_table_name ''age'') =
     ''INSERT INTO users(name, email, age) VALUES ('' @ [quote] @ ''x'' @ [quote] @ '', '' @
       [quote, quote] @ '', 0); DROP TABLE users; --'' @ [quote] @ '', '' @ [quote] @
       ''mallory@example.com'' @ [quote] @ '', 1);'' \<and>
   post_form drop_table_name empty_store =
     (\<lparr>status = 200, body = Echo drop_table_name\<rparr>,
      \<lparr>connected = True, users = None, users_id_seq = 2\<rparr>) \<and>
   get_all \<lparr>connected = True, users = None, users_id_seq = 2\<rparr> =
     (\<lparr>status = 500, body = ErrorBody UndefinedTable\<rparr>,
      \<lparr>connected = True, users = None, users_id_seq = 2\<rparr>) \<and>
   post_form obrien empty_store = (\<lparr>status = 500, body = ErrorBody SyntaxError\<rparr>, empty_store)"
  by (simp add: drop_table_name_def obrien_def empty_store_def lex_eval run_eval)

text \<open>
  C3: a second create-user request carrying an email that is already stored is meant to
  fail with status 500 and leave the table as it was. With a name that closes its string
  literal and comments out the rest of the statement, the submitted email never reaches the
  store: the request is answered with status 200 and a row is added.
\<close>

theorem duplicate_email_accepted:
  "post_form alice empty_store = (\<lparr>status = 200, body = Echo alice\<rparr>, alice_store) \<and>
   body_field same_email ''email'' = body_field alice ''email'' \<and>
   post_form same_email alice_store =
     (\<lparr>status = 200, body = Echo same_email\<rparr>,
      \<lparr>connected = True,
       users = Some [\<lparr>row_id = 1, row_name = ''alice'', row_email = ''alice@example.com'',
                      row_age = 30\<rparr>,
                    \<lparr>row_id = 2, row_name = ''bob'', row_email = ''bob@example.com'',
                      row_age = 31\<rparr>],
       users_id_seq = 3\<rparr>)"
  by (simp add: alice_def same_email_def alice_store_def empty_store_def lex_eval run_eval)

text \<open>
  C9: no operation is meant to change or delete an existing row, and an id is meant never
  to be reused. A create-user request whose name carries \<open>DROP TABLE users\<close> deletes the
  row stored before it; once the table is created again at the next start of the service,
  the next user gets the id 1 that the deleted row had.
\<close>

theorem existing_row_deleted:
  "users alice_store =
     Some [\<lparr>row_id = 1, row_name = ''alice'', row_email = ''alice@example.com'', row_age = 30\<rparr>] \<and>
   post_form drop_table_name alice_store =
     (\<lparr>status = 200, body = Echo drop_table_name\<rparr>,
      \<lparr>connected = True, users = None, users_id_seq = 3\<rparr>) \<and>
   createTable \<lparr>connected = True, users = None, users_id_seq = 3\<rparr> = empty_store \<and>
   users (snd (post_form alice_form empty_store)) =
     Some [\<lparr>row_id = 1, row_name = ''alice'', row_email = ''alice@example.com'', row_age = 30\<rparr>]"
  by (simp add: drop_table_name_def alice_store_def alice_form_def empty_store_def createTable_def
        create_query_def lex_eval run_eval)

end
